theory Spec2Isabelle
  imports Complex_Main "HOL-Library.List_Lexorder"
begin

section \<open>Python values used by the two scripts\<close>

text \<open>
  A Python \<open>str\<close> is its sequence of Unicode code points. The keys of \<open>age_map\<close>
  contain U+2013 (an en dash), so code points are natural numbers rather than bytes.
  Comparison of two \<open>str\<close> values is lexicographic on code points, which is the order
  \<open>HOL-Library.List_Lexorder\<close> puts on \<open>nat list\<close>.
\<close>

type_synonym str = "nat list"

definition py :: "string \<Rightarrow> str" where
  "py s = map of_char s"

text \<open>
  A cell of a text column of the data frame that \<open>pd.read_csv\<close> returns: a \<open>str\<close>, or
  missing (NaN), which is \<open>None\<close> here.
\<close>

type_synonym cell = "str option"

datatype exn = KeyError | ValueError | IndexError

definition bind_exn :: "exn + 'a \<Rightarrow> ('a \<Rightarrow> exn + 'b) \<Rightarrow> exn + 'b" where
  "bind_exn r f = (case r of Inl e \<Rightarrow> Inl e | Inr v \<Rightarrow> f v)"

subsection \<open>\<open>str.strip()\<close>\<close>

text \<open>
  \<open>str.strip()\<close> without argument removes leading and trailing characters for which
  \<open>str.isspace\<close> holds: the code points CPython lists as whitespace.
\<close>

definition isspace :: "nat \<Rightarrow> bool" where
  "isspace c \<longleftrightarrow>
     (9 \<le> c \<and> c \<le> 13) \<or> (28 \<le> c \<and> c \<le> 32) \<or> c = 133 \<or> c = 160 \<or> c = 5760 \<or>
     (8192 \<le> c \<and> c \<le> 8202) \<or> c = 8232 \<or> c = 8233 \<or> c = 8239 \<or> c = 8287 \<or>
     c = 12288"

definition strip :: "str \<Rightarrow> str" where
  "strip s = rev (dropWhile isspace (rev (dropWhile isspace s)))"

subsection \<open>pandas: \<open>astype(str)\<close>, \<open>fillna\<close>, \<open>Series.map\<close>\<close>

text \<open>
  \<open>Series.astype(str)\<close> on an object column applies \<open>str\<close> to every cell; the missing
  value NaN becomes the three characters \<open>nan\<close> (pandas before 3.0, where the result is
  an object column of Python strings).
\<close>

definition astype_str :: "cell \<Rightarrow> str" where
  "astype_str c = (case c of None \<Rightarrow> py ''nan'' | Some s \<Rightarrow> s)"

definition fillna :: "'a \<Rightarrow> 'a option \<Rightarrow> 'a" where
  "fillna d c = (case c of None \<Rightarrow> d | Some v \<Rightarrow> v)"

text \<open>
  A Python \<open>dict\<close> literal is an association list in insertion order; \<open>list(d.keys())\<close>
  is \<open>map fst d\<close>, \<open>d[k]\<close> raises \<open>KeyError\<close> for an absent key.
\<close>

type_synonym ('k, 'v) dict = "('k \<times> 'v) list"

definition keys :: "('k, 'v) dict \<Rightarrow> 'k list" where
  "keys d = map fst d"

definition getitem :: "('k, 'v) dict \<Rightarrow> 'k \<Rightarrow> exn + 'v" where
  "getitem d k = (case map_of d k of None \<Rightarrow> Inl KeyError | Some v \<Rightarrow> Inr v)"

text \<open>
  \<open>Series.map(d)\<close> with a dict \<open>d\<close>: a cell whose value is not a key of \<open>d\<close> (a missing
  cell included) becomes NaN.
\<close>

definition series_map :: "(str, 'v) dict \<Rightarrow> cell \<Rightarrow> 'v option" where
  "series_map d c = (case c of None \<Rightarrow> None | Some s \<Rightarrow> map_of d s)"

subsection \<open>scikit-learn: \<open>LabelEncoder\<close>\<close>

text \<open>
  \<open>LabelEncoder.fit(y)\<close> stores \<open>classes_ = sorted(set(y))\<close>. \<open>transform(y)\<close> maps each
  value to its position in \<open>classes_\<close> and raises \<open>ValueError\<close> ("y contains previously
  unseen labels") when a value is not there. \<open>fit_transform(y)\<close> fits and returns the
  positions of the values of \<open>y\<close> itself. \<open>inverse_transform(y)\<close> raises \<open>ValueError\<close> for
  a code outside \<open>0 .. len(classes_) - 1\<close> and returns \<open>classes_[y]\<close> otherwise.
\<close>

record label_encoder =
  classes :: "str list"

definition LabelEncoder_fit :: "str list \<Rightarrow> label_encoder" where
  "LabelEncoder_fit y = \<lparr>classes = sort (remdups y)\<rparr>"

fun position :: "'a list \<Rightarrow> 'a \<Rightarrow> nat" where
  "position [] v = 0"
| "position (x # xs) v = (if x = v then 0 else Suc (position xs v))"

fun transform :: "label_encoder \<Rightarrow> str list \<Rightarrow> exn + int list" where
  "transform le [] = Inr []"
| "transform le (v # vs) =
     (if v \<in> set (classes le)
      then (case transform le vs of Inl e \<Rightarrow> Inl e
            | Inr cs \<Rightarrow> Inr (int (position (classes le) v) # cs))
      else Inl ValueError)"

definition fit_transform :: "str list \<Rightarrow> label_encoder \<times> int list" where
  "fit_transform y =
     (let le = LabelEncoder_fit y
      in (le, map (\<lambda>v. int (position (classes le) v)) y))"

definition inverse_transform1 :: "label_encoder \<Rightarrow> int \<Rightarrow> exn + str" where
  "inverse_transform1 le c =
     (if 0 \<le> c \<and> c < int (length (classes le)) then Inr (classes le ! nat c)
      else Inl ValueError)"

text \<open>\<open>xs[0]\<close> on a Python list.\<close>

definition first :: "'a list \<Rightarrow> exn + 'a" where
  "first xs = (case xs of [] \<Rightarrow> Inl IndexError | x # _ \<Rightarrow> Inr x)"

text \<open>\<open>le.transform([v])[0]\<close>, as the prediction step calls it.\<close>

definition transform1 :: "label_encoder \<Rightarrow> str \<Rightarrow> exn + int" where
  "transform1 le v = bind_exn (transform le [v]) first"

section \<open>The training script \<open>train_model.py\<close>\<close>

text \<open>
  One row of the survey file, with the header of the CSV as the field names. The text
  columns hold a \<open>str\<close> or are missing.
\<close>

record survey_row =
  age_group :: cell
  education_level :: cell
  employment_status :: cell
  gender :: cell
  skill_alignment :: cell
  skill_training :: cell
  job_seeking_status :: cell
  issue_severity_perception :: cell
  proposed_solution :: cell

text \<open>
  \<open>pd.read_csv(..., encoding='latin1')\<close>. A field of the file is a byte string, or
  \<open>None\<close> where pandas reads the field as missing. Latin-1 decodes every byte to the code
  point of the same number, which is \<open>py\<close>: no cell of the frame holds a code point above
  255.
\<close>

record csv_record =
  csv_age_group :: "string option"
  csv_education_level :: "string option"
  csv_employment_status :: "string option"
  csv_gender :: "string option"
  csv_skill_alignment :: "string option"
  csv_skill_training :: "string option"
  csv_job_seeking_status :: "string option"
  csv_issue_severity_perception :: "string option"
  csv_proposed_solution :: "string option"

definition read_row :: "csv_record \<Rightarrow> survey_row" where
  "read_row f =
     \<lparr>age_group = map_option py (csv_age_group f),
      education_level = map_option py (csv_education_level f),
      employment_status = map_option py (csv_employment_status f),
      gender = map_option py (csv_gender f),
      skill_alignment = map_option py (csv_skill_alignment f),
      skill_training = map_option py (csv_skill_training f),
      job_seeking_status = map_option py (csv_job_seeking_status f),
      issue_severity_perception = map_option py (csv_issue_severity_perception f),
      proposed_solution = map_option py (csv_proposed_solution f)\<rparr>"

definition read_csv :: "csv_record list \<Rightarrow> survey_row list" where
  "read_csv rows = map read_row rows"

text \<open>\<open>df.dropna(how='all')\<close>: a row is dropped when every one of its cells is missing.\<close>

definition all_missing :: "survey_row \<Rightarrow> bool" where
  "all_missing r \<longleftrightarrow>
     age_group r = None \<and> education_level r = None \<and> employment_status r = None \<and>
     gender r = None \<and> skill_alignment r = None \<and> skill_training r = None \<and>
     job_seeking_status r = None \<and> issue_severity_perception r = None \<and>
     proposed_solution r = None"

definition dropna_all :: "survey_row list \<Rightarrow> survey_row list" where
  "dropna_all df = filter (\<lambda>r. \<not> all_missing r) df"

subsection \<open>Preprocessing mappings and target scoring\<close>

definition age_map :: "(str, int) dict" where
  "age_map = [(py ''18'' @ [8211] @ py ''24'', 1), (py ''25'' @ [8211] @ py ''34'', 2)]"

definition edu_map :: "(str, int) dict" where
  "edu_map = [(py ''School level'', 1), (py ''Undergraduate'', 2), (py ''Postgraduate'', 3)]"

definition emp_map :: "(str, int) dict" where
  "emp_map = [(py ''Student'', 1), (py ''Employed'', 2), (py ''Unemployed'', 3)]"

definition severity_map :: "(str, int) dict" where
  "severity_map = [(py ''Yes'', 5), (py ''Maybe'', 3), (py ''No'', 1)]"

text \<open>\<open>series.map(d).fillna(dflt)\<close> on one cell of the series.\<close>

definition map_fillna :: "(str, int) dict \<Rightarrow> int \<Rightarrow> cell \<Rightarrow> int" where
  "map_fillna d dflt c = fillna dflt (series_map d c)"

text \<open>
  The derived columns \<open>df['age_numeric']\<close>, \<open>df['edu_numeric']\<close>, \<open>df['emp_numeric']\<close> and
  \<open>df['target_score']\<close>, for one row. pandas stores them as floats; every value is a small
  whole number, written as an \<open>int\<close> here.
\<close>

definition age_numeric :: "survey_row \<Rightarrow> int" where
  "age_numeric r = map_fillna age_map 1 (age_group r)"

definition edu_numeric :: "survey_row \<Rightarrow> int" where
  "edu_numeric r = map_fillna edu_map 2 (education_level r)"

definition emp_numeric :: "survey_row \<Rightarrow> int" where
  "emp_numeric r = map_fillna emp_map 1 (employment_status r)"

definition target_score :: "survey_row \<Rightarrow> int" where
  "target_score r = map_fillna severity_map 3 (issue_severity_perception r)"

subsection \<open>Encoding the categorical columns\<close>

datatype cat_col = Gender | Skill_alignment | Skill_training | Job_seeking_status

datatype column = Age_numeric | Edu_numeric | Emp_numeric | Cat cat_col

definition categorical_cols :: "cat_col list" where
  "categorical_cols = [Gender, Skill_alignment, Skill_training, Job_seeking_status]"

fun raw :: "cat_col \<Rightarrow> survey_row \<Rightarrow> cell" where
  "raw Gender r = gender r"
| "raw Skill_alignment r = skill_alignment r"
| "raw Skill_training r = skill_training r"
| "raw Job_seeking_status r = job_seeking_status r"

text \<open>\<open>df[col].astype(str).str.strip()\<close>, for one cell and for the whole column.\<close>

definition astype_str_strip :: "cell \<Rightarrow> str" where
  "astype_str_strip c = strip (astype_str c)"

definition cat_series :: "survey_row list \<Rightarrow> cat_col \<Rightarrow> str list" where
  "cat_series df col = map (\<lambda>r. astype_str_strip (raw col r)) df"

text \<open>The loop over \<open>categorical_cols\<close>: the dict \<open>encoders\<close> it builds.\<close>

definition encoder_loop :: "survey_row list \<Rightarrow> (cat_col, label_encoder) dict" where
  "encoder_loop df =
     map (\<lambda>col. (col, fst (fit_transform (cat_series df col)))) categorical_cols"

subsection \<open>Features and the saved bundle\<close>

definition features :: "column list" where
  "features = [Age_numeric, Edu_numeric, Emp_numeric, Cat Gender, Cat Skill_alignment,
     Cat Skill_training, Cat Job_seeking_status]"

text \<open>The columns of the frame after the loop, which replaced each categorical column
  by the codes \<open>fit_transform\<close> returned.\<close>

fun column_values :: "survey_row list \<Rightarrow> column \<Rightarrow> int list" where
  "column_values df Age_numeric = map age_numeric df"
| "column_values df Edu_numeric = map edu_numeric df"
| "column_values df Emp_numeric = map emp_numeric df"
| "column_values df (Cat col) = snd (fit_transform (cat_series df col))"

text \<open>\<open>X = df[features]\<close> as its list of rows, and \<open>y = df['target_score']\<close>.\<close>

definition X :: "survey_row list \<Rightarrow> int list list" where
  "X df = map (\<lambda>i. map (\<lambda>c. column_values df c ! i) features) [0..<length df]"

definition y :: "survey_row list \<Rightarrow> int list" where
  "y df = map target_score df"

record 'm assets =
  assets_model :: 'm
  assets_encoders :: "(cat_col, label_encoder) dict"
  assets_age_map :: "(str, int) dict"
  assets_edu_map :: "(str, int) dict"
  assets_emp_map :: "(str, int) dict"
  assets_feature_names :: "column list"

text \<open>
  The dict the script pickles, from the loaded frame on.
  \<open>RandomForestRegressor(...).fit\<close> is scikit-learn's; it is the parameter \<open>model_fit\<close>.
\<close>

definition train :: "(int list list \<Rightarrow> int list \<Rightarrow> 'm) \<Rightarrow> survey_row list \<Rightarrow> 'm assets" where
  "train model_fit csv =
     (let df = dropna_all csv
      in \<lparr>assets_model = model_fit (X df) (y df),
          assets_encoders = encoder_loop df,
          assets_age_map = age_map,
          assets_edu_map = edu_map,
          assets_emp_map = emp_map,
          assets_feature_names = features\<rparr>)"



subsection \<open>scikit-learn: \<open>RandomForestRegressor\<close>\<close>

text \<open>
  The fitted forest, as far as prediction reads it. A tree is a leaf or a test
  \<open>x[feature] <= threshold\<close> with a left (test holds) and a right subtree. A leaf keeps the
  targets of the training samples that reached it, with their bootstrap multiplicity; its
  value is their mean. The forest predicts the mean of its trees' values. Arithmetic is
  exact here, scikit-learn computes in floating point. scikit-learn rejects a row whose
  width is not the training width before any tree is read; the dashboard's row always has
  the seven training columns, and a test on a missing feature is taken as false.
\<close>

datatype tree = Leaf "int list" | Node nat real tree tree

record forest =
  estimators :: "tree list"

definition mean :: "real list \<Rightarrow> real" where
  "mean xs = sum_list xs / real (length xs)"





section \<open>The dashboard \<open>app.py\<close>\<close>

text \<open>\<open>load_clean_data\<close> on one cell of a text column:
  \<open>fillna("Unknown").str.strip()\<close>.\<close>

definition load_clean_cell :: "cell \<Rightarrow> str" where
  "load_clean_cell c = strip (fillna (py ''Unknown'') c)"

text \<open>
  \<open>load_assets\<close>: \<open>file\<close> is the content of \<open>unemployment_model.pkl\<close> (\<open>None\<close> when
  \<open>open\<close> raises), \<open>pickle_load\<close> is \<open>pickle.load\<close>, which raises on a blob it cannot
  read. The bare \<open>except\<close> turns every exception into \<open>None\<close>.
\<close>

definition load_assets :: "('b \<Rightarrow> 'e + 'a) \<Rightarrow> 'b option \<Rightarrow> 'a option" where
  "load_assets pickle_load file =
     (case file of None \<Rightarrow> None
      | Some blob \<Rightarrow> (case pickle_load blob of Inl e \<Rightarrow> None | Inr a \<Rightarrow> Some a))"

record selections =
  age :: str
  edu :: str
  emp :: str
  gen :: str
  skl :: str
  trn :: str
  sk :: str

text \<open>The option lists of the seven select boxes.\<close>

definition cat_options :: "'m assets \<Rightarrow> cat_col \<Rightarrow> exn + str list" where
  "cat_options a col = bind_exn (getitem (assets_encoders a) col) (\<lambda>le. Inr (classes le))"

definition one_of :: "str \<Rightarrow> exn + str list \<Rightarrow> bool" where
  "one_of v opts = (case opts of Inl e \<Rightarrow> False | Inr xs \<Rightarrow> v \<in> set xs)"

definition offered :: "'m assets \<Rightarrow> selections \<Rightarrow> bool" where
  "offered a s \<longleftrightarrow>
     age s \<in> set (keys (assets_age_map a)) \<and>
     edu s \<in> set (keys (assets_edu_map a)) \<and>
     emp s \<in> set (keys (assets_emp_map a)) \<and>
     one_of (gen s) (cat_options a Gender) \<and>
     one_of (skl s) (cat_options a Skill_alignment) \<and>
     one_of (trn s) (cat_options a Skill_training) \<and>
     one_of (sk s) (cat_options a Job_seeking_status)"

text \<open>\<open>assets['encoders'][col].transform([v])[0]\<close>.\<close>

definition encode :: "'m assets \<Rightarrow> cat_col \<Rightarrow> str \<Rightarrow> exn + int" where
  "encode a col v = bind_exn (getitem (assets_encoders a) col) (\<lambda>le. transform1 le v)"

text \<open>The row \<open>x_in[0]\<close>; Python evaluates the seven entries from left to right and the
  first exception ends the evaluation.\<close>

definition x_in :: "'m assets \<Rightarrow> selections \<Rightarrow> exn + int list" where
  "x_in a s =
     bind_exn (getitem (assets_age_map a) (age s)) (\<lambda>v0.
     bind_exn (getitem (assets_edu_map a) (edu s)) (\<lambda>v1.
     bind_exn (getitem (assets_emp_map a) (emp s)) (\<lambda>v2.
     bind_exn (encode a Gender (gen s)) (\<lambda>v3.
     bind_exn (encode a Skill_alignment (skl s)) (\<lambda>v4.
     bind_exn (encode a Skill_training (trn s)) (\<lambda>v5.
     bind_exn (encode a Job_seeking_status (sk s)) (\<lambda>v6.
     Inr [v0, v1, v2, v3, v4, v5, v6])))))))"

text \<open>
  The same row, column by column. The select box built from \<open>encoders[col]\<close> fills the
  variable that \<open>encoders[col].transform\<close> is given, and \<open>age_map\<close>, \<open>edu_map\<close> and
  \<open>emp_map\<close> are the maps from which the training script derived the three numeric
  columns. \<open>feature_code\<close> is the code the dashboard computes for one feature column,
  \<open>collect\<close> gathers a list of results from left to right up to the first exception.
\<close>

fun chosen :: "cat_col \<Rightarrow> selections \<Rightarrow> str" where
  "chosen Gender s = gen s"
| "chosen Skill_alignment s = skl s"
| "chosen Skill_training s = trn s"
| "chosen Job_seeking_status s = sk s"

fun feature_code :: "'m assets \<Rightarrow> selections \<Rightarrow> column \<Rightarrow> exn + int" where
  "feature_code a s Age_numeric = getitem (assets_age_map a) (age s)"
| "feature_code a s Edu_numeric = getitem (assets_edu_map a) (edu s)"
| "feature_code a s Emp_numeric = getitem (assets_emp_map a) (emp s)"
| "feature_code a s (Cat col) = encode a col (chosen col s)"

fun collect :: "(exn + 'a) list \<Rightarrow> exn + 'a list" where
  "collect [] = Inr []"
| "collect (r # rs) = bind_exn r (\<lambda>v. bind_exn (collect rs) (\<lambda>vs. Inr (v # vs)))"

text \<open>
  The third tab. \<open>model_predict\<close> is the model's \<open>predict\<close>, of scikit-learn;
  \<open>clicked\<close> says whether the button was pressed.
\<close>

datatype 'p tab3_result =
  St_error string | Form | St_metric 'p | Uncaught exn

definition tab3 ::
  "('m \<Rightarrow> int list list \<Rightarrow> 'p list) \<Rightarrow> 'm assets option \<Rightarrow> bool \<Rightarrow> selections \<Rightarrow> 'p tab3_result" where
  "tab3 model_predict loaded clicked s =
     (case loaded of
        None \<Rightarrow> St_error ''Model assets not found. Run the training script first.''
      | Some a \<Rightarrow>
          if clicked
          then (case bind_exn (x_in a s) (\<lambda>x. first (model_predict (assets_model a) [x])) of
                  Inl e \<Rightarrow> Uncaught e
                | Inr prediction \<Rightarrow> St_metric prediction)
          else Form)"

section \<open>Example data\<close>

text \<open>A small survey frame as \<open>read_csv\<close> returns it: a row with an untrimmed label, a
  missing cell and a blank cell, a row with no cell at all, and a clean row; and the bundle
  trained on it. The file is UTF-8, so the en dash of an age group arrives as the three
  Latin-1 characters of its bytes.\<close>

definition row_a :: survey_row where
  "row_a = \<lparr>age_group = Some (py (''18'' @ [CHR 0xE2, CHR 0x80, CHR 0x93] @ ''24'')),
     education_level = Some (py ''Undergraduate''),
     employment_status = Some (py ''Employed''),
     gender = Some (py '' Male''),
     skill_alignment = None,
     skill_training = Some (py ''Yes''),
     job_seeking_status = Some (py ''  ''),
     issue_severity_perception = Some (py ''Yes''),
     proposed_solution = None\<rparr>"

definition row_b :: survey_row where
  "row_b = \<lparr>age_group = Some (py (''25'' @ [CHR 0xE2, CHR 0x80, CHR 0x93] @ ''34'')),
     education_level = Some (py ''Postgraduate''),
     employment_status = Some (py ''Unemployed''),
     gender = Some (py ''Female''),
     skill_alignment = Some (py ''No''),
     skill_training = Some (py ''No''),
     job_seeking_status = Some (py ''Yes''),
     issue_severity_perception = Some (py ''No''),
     proposed_solution = Some (py ''Training'')\<rparr>"

definition row_empty :: survey_row where
  "row_empty = \<lparr>age_group = None, education_level = None, employment_status = None,
     gender = None, skill_alignment = None, skill_training = None,
     job_seeking_status = None, issue_severity_perception = None,
     proposed_solution = None\<rparr>"

definition example_csv :: "survey_row list" where
  "example_csv = [row_a, row_empty, row_b]"

definition example_assets :: "unit assets" where
  "example_assets = train (\<lambda>X y. ()) example_csv"

text \<open>Selections at the dashboard that match the first row of the example file.\<close>

definition example_selection :: selections where
  "example_selection = \<lparr>age = py ''18'' @ [8211] @ py ''24'', edu = py ''Undergraduate'',
     emp = py ''Employed'', gen = py ''Male'', skl = py ''nan'', trn = py ''Yes'', sk = []\<rparr>"

text \<open>
  A survey file of seven records, bytes as they stand in a UTF-8 file. In the first
  record every feature gets a code of its own, so the place of each code in a row shows.
\<close>

definition survey_file :: "csv_record list" where
  "survey_file =
    [\<lparr>csv_age_group = Some (''18'' @ [CHR 0xE2, CHR 0x80, CHR 0x93] @ ''24''),
      csv_education_level = Some ''Postgraduate'',
      csv_employment_status = Some ''Employed'',
      csv_gender = Some ''Female'',
      csv_skill_alignment = Some ''Yes'',
      csv_skill_training = Some ''Yes'',
      csv_job_seeking_status = Some ''Yes'',
      csv_issue_severity_perception = Some ''Yes'',
      csv_proposed_solution = None\<rparr>,
     \<lparr>csv_age_group = Some (''25'' @ [CHR 0xE2, CHR 0x80, CHR 0x93] @ ''34''),
      csv_education_level = Some ''Undergraduate'',
      csv_employment_status = Some ''Unemployed'',
      csv_gender = Some ''Male'',
      csv_skill_alignment = Some ''Fully'',
      csv_skill_training = Some ''Course'',
      csv_job_seeking_status = Some ''Actively'',
      csv_issue_severity_perception = Some ''Maybe'',
      csv_proposed_solution = Some ''More internships''\<rparr>,
     \<lparr>csv_age_group = Some (''18'' @ [CHR 0xE2, CHR 0x80, CHR 0x93] @ ''24''),
      csv_education_level = Some ''School level'',
      csv_employment_status = Some ''Student'',
      csv_gender = Some ''Male'',
      csv_skill_alignment = Some ''Mostly'',
      csv_skill_training = Some ''Degree'',
      csv_job_seeking_status = Some ''Casually'',
      csv_issue_severity_perception = Some ''No'',
      csv_proposed_solution = None\<rparr>,
     \<lparr>csv_age_group = Some (''25'' @ [CHR 0xE2, CHR 0x80, CHR 0x93] @ ''34''),
      csv_education_level = Some ''Undergraduate'',
      csv_employment_status = Some ''Employed'',
      csv_gender = Some ''Other'',
      csv_skill_alignment = Some ''No'',
      csv_skill_training = Some ''Never'',
      csv_job_seeking_status = Some ''Maybe'',
      csv_issue_severity_perception = Some ''Yes'',
      csv_proposed_solution = None\<rparr>,
     \<lparr>csv_age_group = Some (''18'' @ [CHR 0xE2, CHR 0x80, CHR 0x93] @ ''24''),
      csv_education_level = Some ''Undergraduate'',
      csv_employment_status = Some ''Student'',
      csv_gender = Some ''Male'',
      csv_skill_alignment = Some ''Partly'',
      csv_skill_training = Some ''No'',
      csv_job_seeking_status = Some ''No'',
      csv_issue_severity_perception = Some ''No'',
      csv_proposed_solution = None\<rparr>,
     \<lparr>csv_age_group = Some (''25'' @ [CHR 0xE2, CHR 0x80, CHR 0x93] @ ''34''),
      csv_education_level = Some ''Postgraduate'',
      csv_employment_status = Some ''Unemployed'',
      csv_gender = Some ''Female'',
      csv_skill_alignment = Some ''No'',
      csv_skill_training = Some ''Online'',
      csv_job_seeking_status = Some ''Not now'',
      csv_issue_severity_perception = Some ''Yes'',
      csv_proposed_solution = None\<rparr>,
     \<lparr>csv_age_group = Some (''18'' @ [CHR 0xE2, CHR 0x80, CHR 0x93] @ ''24''),
      csv_education_level = Some ''Undergraduate'',
      csv_employment_status = Some ''Employed'',
      csv_gender = Some ''Male'',
      csv_skill_alignment = Some ''Fully'',
      csv_skill_training = Some ''No'',
      csv_job_seeking_status = Some ''Soon'',
      csv_issue_severity_perception = Some ''Maybe'',
      csv_proposed_solution = None\<rparr>]"

text \<open>The selections at the dashboard for the first record of \<open>survey_file\<close>.\<close>

definition survey_selection :: selections where
  "survey_selection = \<lparr>age = py ''18'' @ [8211] @ py ''24'', edu = py ''Postgraduate'',
     emp = py ''Employed'', gen = py ''Female'', skl = py ''Yes'', trn = py ''Yes'',
     sk = py ''Yes''\<rparr>"

text \<open>A forest that meets \<open>fitted_on\<close>: a hundred trees that split on the education code
  and keep all the targets in both leaves.\<close>

definition example_fit :: "int list list \<Rightarrow> int list \<Rightarrow> forest" where
  "example_fit rows targets =
     \<lparr>estimators = replicate 100 (Node 1 (5 / 2) (Leaf targets) (Leaf (rev targets)))\<rparr>"

definition survey_assets :: "forest assets" where
  "survey_assets = train example_fit (read_csv survey_file)"

section \<open>Properties of the library functions\<close>

lemmas example_defs = example_assets_def example_csv_def row_a_def row_b_def row_empty_def

lemma position_less: "v \<in> set xs \<Longrightarrow> position xs v < length xs"
  by (induction xs) auto

lemma nth_position: "v \<in> set xs \<Longrightarrow> xs ! position xs v = v"
  by (induction xs) auto

lemma position_nth: "distinct xs \<Longrightarrow> i < length xs \<Longrightarrow> position xs (xs ! i) = i"
proof (induction xs arbitrary: i)
  case Nil
  then show ?case by simp
next
  case (Cons x xs)
  then show ?case by (cases i) auto
qed

lemma position_mono:
  "sorted xs \<Longrightarrow> a \<in> set xs \<Longrightarrow> b \<in> set xs \<Longrightarrow> a < b \<Longrightarrow> position xs a < position xs b"
proof (induction xs)
  case Nil
  then show ?case by simp
next
  case (Cons x xs)
  then show ?case by (auto simp: not_le dest: leD)
qed

lemma transform1_eq:
  "transform1 le v =
     (if v \<in> set (classes le) then Inr (int (position (classes le) v)) else Inl ValueError)"
  by (simp add: transform1_def bind_exn_def first_def)

lemma transform_unseen:
  "v \<in> set vs \<Longrightarrow> v \<notin> set (classes le) \<Longrightarrow> transform le vs = Inl ValueError"
proof (induction vs)
  case Nil
  then show ?case by simp
next
  case (Cons u us)
  show ?case
  proof (cases "u = v")
    case True
    with Cons.prems show ?thesis by simp
  next
    case False
    with Cons have "transform le us = Inl ValueError" by simp
    then show ?thesis by simp
  qed
qed

lemma transform_seen:
  "set vs \<subseteq> set (classes le) \<Longrightarrow>
     transform le vs = Inr (map (\<lambda>v. int (position (classes le) v)) vs)"
  by (induction vs) auto

lemma classes_fit: "classes (LabelEncoder_fit ys) = sort (remdups ys)"
  by (simp add: LabelEncoder_fit_def)

lemma fit_transform_agrees:
  "transform (fst (fit_transform ys)) ys = Inr (snd (fit_transform ys))"
  by (simp add: fit_transform_def Let_def transform_seen classes_fit)

lemma fst_fit_transform: "fst (fit_transform ys) = LabelEncoder_fit ys"
  by (simp add: fit_transform_def Let_def)

lemma getitem_encoder_loop:
  "getitem (encoder_loop df) col = Inr (LabelEncoder_fit (cat_series df col))"
  by (cases col) (simp_all add: getitem_def encoder_loop_def categorical_cols_def fst_fit_transform)


lemma last_dropWhile: "dropWhile P xs \<noteq> [] \<Longrightarrow> last (dropWhile P xs) = last xs"
  by (induction xs) auto

lemma dropWhile_twice_Nil:
  "dropWhile P (rev (dropWhile P xs)) = [] \<longleftrightarrow> (\<forall>x \<in> set xs. P x)"
proof
  assume a: "dropWhile P (rev (dropWhile P xs)) = []"
  show "\<forall>x \<in> set xs. P x"
  proof (rule ccontr)
    assume "\<not> (\<forall>x \<in> set xs. P x)"
    then have ne: "dropWhile P xs \<noteq> []" by (simp only: dropWhile_eq_Nil_conv not_False_eq_True)
    then have "\<not> P (hd (dropWhile P xs))" by (rule hd_dropWhile)
    moreover from ne have "hd (dropWhile P xs) \<in> set (rev (dropWhile P xs))"
      by (simp del: dropWhile_eq_Nil_conv)
    moreover from a have "\<forall>x \<in> set (rev (dropWhile P xs)). P x"
      by (simp only: dropWhile_eq_Nil_conv)
    ultimately show False by blast
  qed
next
  assume "\<forall>x \<in> set xs. P x"
  then have "dropWhile P xs = []" by simp
  then show "dropWhile P (rev (dropWhile P xs)) = []" by (simp only: rev.simps dropWhile.simps)
qed

lemma strip_Nil_iff: "strip s = [] \<longleftrightarrow> (\<forall>c \<in> set s. isspace c)"
  unfolding strip_def rev_is_Nil_conv by (rule dropWhile_twice_Nil)

lemma strip_ends:
  assumes "strip s \<noteq> []"
  shows "\<not> isspace (hd (strip s)) \<and> \<not> isspace (last (strip s))"
proof -
  let ?d = "dropWhile isspace s"
  let ?e = "dropWhile isspace (rev ?d)"
  have t: "strip s = rev ?e" by (simp only: strip_def)
  from assms have e: "?e \<noteq> []" unfolding t rev_is_Nil_conv .
  have d: "?d \<noteq> []"
  proof
    assume "?d = []"
    then have "?e = []" by (simp only: rev.simps dropWhile.simps)
    with e show False ..
  qed
  have "\<not> isspace (hd ?e)" using e by (rule hd_dropWhile)
  then have l: "\<not> isspace (last (strip s))" by (simp add: t last_rev del: dropWhile_eq_Nil_conv)
  have "last ?e = last (rev ?d)" using e by (rule last_dropWhile)
  also have "\<dots> = hd ?d" by (simp only: last_rev)
  finally have "hd (strip s) = hd ?d" by (simp only: t hd_rev)
  moreover have "\<not> isspace (hd ?d)" using d by (rule hd_dropWhile)
  ultimately show ?thesis using l by simp
qed

lemma dropWhile_self: "xs \<noteq> [] \<Longrightarrow> \<not> P (hd xs) \<Longrightarrow> dropWhile P xs = xs"
  by (cases xs) auto

lemma strip_idem: "strip (strip s) = strip s"
proof (cases "strip s = []")
  case True
  have "strip [] = []" by (simp add: strip_def)
  with True show ?thesis by simp
next
  case False
  let ?t = "strip s"
  from strip_ends [OF False] have h: "\<not> isspace (hd ?t)" and l: "\<not> isspace (last ?t)" by simp_all
  from False h have 1: "dropWhile isspace ?t = ?t" by (rule dropWhile_self)
  from False have "rev ?t \<noteq> []" by simp
  moreover from False l have "\<not> isspace (hd (rev ?t))" by (simp add: hd_rev)
  ultimately have 2: "dropWhile isspace (rev ?t) = rev ?t" by (rule dropWhile_self)
  have "strip ?t = rev (dropWhile isspace (rev (dropWhile isspace ?t)))"
    by (simp only: strip_def)
  also have "\<dots> = ?t" by (simp only: 1 2 rev_rev_ident)
  finally show ?thesis .
qed

lemma codes_of_classes:
  assumes "distinct xs"
  shows "{c. \<exists>l \<in> set xs. int (position xs l) = c} = int ` {0..<length xs}"
proof (intro set_eqI iffI)
  fix c assume "c \<in> {c. \<exists>l \<in> set xs. int (position xs l) = c}"
  then obtain l where "l \<in> set xs" "c = int (position xs l)" by auto
  then show "c \<in> int ` {0..<length xs}" by (auto simp: position_less)
next
  fix c assume "c \<in> int ` {0..<length xs}"
  then obtain i where i: "i < length xs" "c = int i" by auto
  with assms have "position xs (xs ! i) = i" by (simp add: position_nth)
  with i show "c \<in> {c. \<exists>l \<in> set xs. int (position xs l) = c}" by force
qed

subsection \<open>Lookups, normalisation and the trained bundle\<close>

lemma map_of_key:
  "l \<in> set (keys d) \<Longrightarrow> \<exists>v. (l, v) \<in> set d \<and> map_of d l = Some v"
  by (induction d) (auto simp: keys_def)

lemma map_of_no_key: "l \<notin> set (keys d) \<Longrightarrow> map_of d l = None"
  by (simp add: keys_def map_of_eq_None_iff)

lemma ordinal_known:
  assumes "l \<in> set (keys d)"
  shows "\<exists>v. (l, v) \<in> set d \<and> map_fillna d dflt (Some l) = v \<and> getitem d l = Inr v"
proof -
  from map_of_key [OF assms] obtain v where "(l, v) \<in> set d" "map_of d l = Some v" by blast
  then show ?thesis by (auto simp: map_fillna_def fillna_def series_map_def getitem_def)
qed

lemma ordinal_unknown:
  assumes "l \<notin> set (keys d)"
  shows "map_fillna d dflt (Some l) = dflt \<and> getitem d l = Inl KeyError"
  using map_of_no_key [OF assms]
  by (simp add: map_fillna_def fillna_def series_map_def getitem_def)

lemma map_fillna_None: "map_fillna d dflt None = dflt"
  by (simp add: map_fillna_def fillna_def series_map_def)

lemma train_maps:
  "assets_age_map (train model_fit csv) = age_map"
  "assets_edu_map (train model_fit csv) = edu_map"
  "assets_emp_map (train model_fit csv) = emp_map"
  "assets_feature_names (train model_fit csv) = features"
  "assets_encoders (train model_fit csv) = encoder_loop (dropna_all csv)"
  by (simp_all add: train_def Let_def)

lemma key_getitem: "k \<in> set (keys d) \<Longrightarrow> \<exists>v. getitem d k = Inr v"
  using map_of_key [of k d] by (auto simp: getitem_def)

lemma strip_nan: "strip (py ''nan'') = py ''nan''"
  by (simp add: strip_def py_def isspace_def)

lemma astype_str_strip_None: "astype_str_strip None = py ''nan''"
  by (simp add: astype_str_strip_def astype_str_def strip_nan)

lemma nan_not_Unknown: "py ''nan'' \<noteq> py ''Unknown''"
  by (simp add: py_def)

lemma cat_series_nth:
  "i < length df \<Longrightarrow> cat_series df col ! i = astype_str_strip (raw col (df ! i))"
  by (simp add: cat_series_def)

lemma length_cat_series: "length (cat_series df col) = length df"
  by (simp add: cat_series_def)

lemma classes_encoder: "set (classes (LabelEncoder_fit ys)) = set ys"
  by (simp add: classes_fit)

lemma encode_train:
  "encode (train model_fit csv) col v = transform1 (LabelEncoder_fit (cat_series (dropna_all csv) col)) v"
  by (simp add: encode_def train_maps getitem_encoder_loop bind_exn_def)

lemma column_values_Cat:
  assumes "i < length df"
  shows "transform1 (LabelEncoder_fit (cat_series df col)) (cat_series df col ! i) =
     Inr (column_values df (Cat col) ! i)"
proof -
  from assms have l: "i < length (cat_series df col)" by (simp add: length_cat_series)
  then have "cat_series df col ! i \<in> set (cat_series df col)" by (rule nth_mem)
  with l show ?thesis
    by (simp add: transform1_eq classes_encoder fit_transform_def Let_def)
qed

lemma X_nth:
  "i < length df \<Longrightarrow> X df ! i = map (\<lambda>c. column_values df c ! i) features"
  by (simp add: X_def)

lemma inverse_position:
  "l \<in> set (classes le) \<Longrightarrow> inverse_transform1 le (int (position (classes le) l)) = Inr l"
  by (simp add: inverse_transform1_def position_less nth_position)

lemma one_of_cat_options:
  assumes "one_of v (cat_options a col)"
  shows "\<exists>c. encode a col v = Inr c"
proof (cases "getitem (assets_encoders a) col")
  case (Inl e)
  with assms show ?thesis by (simp add: one_of_def cat_options_def bind_exn_def)
next
  case (Inr le)
  with assms have "v \<in> set (classes le)" by (simp add: one_of_def cat_options_def bind_exn_def)
  with Inr show ?thesis by (simp add: encode_def bind_exn_def transform1_eq)
qed



subsection \<open>Reading the file, the order of the row, the forest\<close>

text \<open>
  The keys of \<open>age_map\<close> hold U+2013, which no cell read with Latin-1 holds: on every
  frame the script reads, \<open>age_numeric\<close> is the default 1.
\<close>

lemma py_latin1: "c \<in> set (py s) \<Longrightarrow> c < 256"
  by (auto simp: py_def)

lemma age_key_not_read: "l \<in> set (keys age_map) \<Longrightarrow> l \<noteq> py s"
proof
  assume k: "l \<in> set (keys age_map)" and e: "l = py s"
  from k have "8211 \<in> set l" by (auto simp: keys_def age_map_def)
  with e have "8211 \<in> set (py s)" by simp
  then have "(8211 :: nat) < 256" by (rule py_latin1)
  then show False by simp
qed

lemma age_numeric_read_row: "age_numeric (read_row f) = 1"
proof (cases "csv_age_group f")
  case None
  then show ?thesis by (simp add: age_numeric_def read_row_def map_fillna_None)
next
  case (Some b)
  from age_key_not_read [of "py b" b] have "py b \<notin> set (keys age_map)" by blast
  from ordinal_unknown [OF this, of 1] Some show ?thesis
    by (simp add: age_numeric_def read_row_def)
qed

lemma offered_keys:
  "offered a s \<Longrightarrow> age s \<in> set (keys (assets_age_map a)) \<and>
     edu s \<in> set (keys (assets_edu_map a)) \<and> emp s \<in> set (keys (assets_emp_map a))"
  by (simp add: offered_def)

lemmas survey_defs = survey_assets_def survey_file_def read_csv_def read_row_def

lemma survey_kept: "dropna_all (read_csv survey_file) = read_csv survey_file"
  by (simp add: survey_defs dropna_all_def all_missing_def)

lemma survey_length: "length (read_csv survey_file) = 7"
  by (simp add: survey_defs)

lemma survey_gender:
  "cat_series (read_csv survey_file) Gender =
     [py ''Female'', py ''Male'', py ''Male'', py ''Other'', py ''Male'', py ''Female'', py ''Male'']"
  by (simp add: survey_defs cat_series_def astype_str_strip_def astype_str_def strip_def
      isspace_def py_def)

lemma survey_skill_alignment:
  "cat_series (read_csv survey_file) Skill_alignment =
     [py ''Yes'', py ''Fully'', py ''Mostly'', py ''No'', py ''Partly'', py ''No'', py ''Fully'']"
  by (simp add: survey_defs cat_series_def astype_str_strip_def astype_str_def strip_def
      isspace_def py_def)

lemma survey_skill_training:
  "cat_series (read_csv survey_file) Skill_training =
     [py ''Yes'', py ''Course'', py ''Degree'', py ''Never'', py ''No'', py ''Online'', py ''No'']"
  by (simp add: survey_defs cat_series_def astype_str_strip_def astype_str_def strip_def
      isspace_def py_def)

lemma survey_job_seeking_status:
  "cat_series (read_csv survey_file) Job_seeking_status =
     [py ''Yes'', py ''Actively'', py ''Casually'', py ''Maybe'', py ''No'', py ''Not now'',
      py ''Soon'']"
  by (simp add: survey_defs cat_series_def astype_str_strip_def astype_str_def strip_def
      isspace_def py_def)

lemma survey_classes:
  "classes (LabelEncoder_fit (cat_series (read_csv survey_file) Gender)) =
     [py ''Female'', py ''Male'', py ''Other'']"
  "classes (LabelEncoder_fit (cat_series (read_csv survey_file) Skill_alignment)) =
     [py ''Fully'', py ''Mostly'', py ''No'', py ''Partly'', py ''Yes'']"
  "classes (LabelEncoder_fit (cat_series (read_csv survey_file) Skill_training)) =
     [py ''Course'', py ''Degree'', py ''Never'', py ''No'', py ''Online'', py ''Yes'']"
  "classes (LabelEncoder_fit (cat_series (read_csv survey_file) Job_seeking_status)) =
     [py ''Actively'', py ''Casually'', py ''Maybe'', py ''No'', py ''Not now'', py ''Soon'',
      py ''Yes'']"
  unfolding survey_gender survey_skill_alignment survey_skill_training survey_job_seeking_status
  by (simp_all add: LabelEncoder_fit_def py_def)

lemma survey_X0: "X (read_csv survey_file) ! 0 = [1, 3, 2, 0, 4, 5, 6]"
proof -
  have r: "read_csv survey_file ! 0 = read_row (survey_file ! 0)"
    by (simp add: read_csv_def survey_file_def)
  have a: "age_numeric (read_csv survey_file ! 0) = 1"
    unfolding r by (rule age_numeric_read_row)
  have o: "edu_numeric (read_csv survey_file ! 0) = 3"
    "emp_numeric (read_csv survey_file ! 0) = 2"
    unfolding r
    by (simp_all add: edu_numeric_def emp_numeric_def map_fillna_def
        fillna_def series_map_def edu_map_def emp_map_def read_row_def survey_file_def py_def)
  have c: "column_values (read_csv survey_file) (Cat Gender) ! 0 = 0"
    "column_values (read_csv survey_file) (Cat Skill_alignment) ! 0 = 4"
    "column_values (read_csv survey_file) (Cat Skill_training) ! 0 = 5"
    "column_values (read_csv survey_file) (Cat Job_seeking_status) ! 0 = 6"
    by (simp_all add: fit_transform_def Let_def survey_classes)
      (simp_all add: survey_gender survey_skill_alignment survey_skill_training
        survey_job_seeking_status py_def)
  show ?thesis
    using a o c by (simp add: X_nth survey_length features_def)
qed

lemma survey_offered: "offered survey_assets survey_selection"
proof -
  have e: "getitem (assets_encoders survey_assets) col =
      Inr (LabelEncoder_fit (cat_series (read_csv survey_file) col))" for col
    by (simp add: survey_assets_def train_maps survey_kept getitem_encoder_loop)
  have k: "age survey_selection \<in> set (keys age_map)"
    "edu survey_selection \<in> set (keys edu_map)"
    "emp survey_selection \<in> set (keys emp_map)"
    by (simp_all add: survey_selection_def keys_def age_map_def edu_map_def emp_map_def)
  have c: "one_of (gen survey_selection) (cat_options survey_assets Gender)"
    "one_of (skl survey_selection) (cat_options survey_assets Skill_alignment)"
    "one_of (trn survey_selection) (cat_options survey_assets Skill_training)"
    "one_of (sk survey_selection) (cat_options survey_assets Job_seeking_status)"
    by (simp_all add: one_of_def cat_options_def e bind_exn_def survey_classes
        survey_selection_def)
  from k c show ?thesis
    by (simp add: offered_def survey_assets_def train_maps)
qed

lemma x_in_collect: "x_in a s = collect (map (feature_code a s) features)"
proof -
  have "collect [r0, r1, r2, r3, r4, r5, r6] =
      bind_exn r0 (\<lambda>v0. bind_exn r1 (\<lambda>v1. bind_exn r2 (\<lambda>v2. bind_exn r3 (\<lambda>v3.
      bind_exn r4 (\<lambda>v4. bind_exn r5 (\<lambda>v5. bind_exn r6 (\<lambda>v6.
        Inr [v0, v1, v2, v3, v4, v5, v6])))))))"
    for r0 r1 r2 r3 r4 r5 r6 :: "exn + int"
    by (simp add: bind_exn_def split: sum.splits)
  then show ?thesis by (simp add: x_in_def features_def)
qed

lemma x_in_row:
  assumes i: "i < length (dropna_all csv)"
    and a: "getitem age_map (age s) = Inr (age_numeric (dropna_all csv ! i))"
    and e: "getitem edu_map (edu s) = Inr (edu_numeric (dropna_all csv ! i))"
    and m: "getitem emp_map (emp s) = Inr (emp_numeric (dropna_all csv ! i))"
    and c: "\<And>col. chosen col s = strip (astype_str (raw col (dropna_all csv ! i)))"
  shows "x_in (train model_fit csv) s = Inr (X (dropna_all csv) ! i)"
proof -
  let ?df = "dropna_all csv"
  have k: "encode (train model_fit csv) col (chosen col s) =
      Inr (column_values ?df (Cat col) ! i)" for col
    using column_values_Cat [OF i, of col] i
    by (simp add: encode_train cat_series_nth astype_str_strip_def c)
  from k [of Gender] k [of Skill_alignment] k [of Skill_training] k [of Job_seeking_status]
  show ?thesis
    using i by (simp add: x_in_def train_maps a e m bind_exn_def X_nth [OF i] features_def)
qed















lemma mean_replicate: "0 < n \<Longrightarrow> mean (replicate n c) = c"
  by (simp add: mean_def sum_list_replicate)



section \<open>Properties of the pipeline\<close>

text \<open>
  C1. An encoder given a value outside its label set raises: \<open>transform\<close> returns the
  \<open>ValueError\<close> of scikit-learn ("y contains previously unseen labels"), which is the
  unknown-category error, and substitutes no default code. This holds for every encoder,
  so for every fitted one, for the single value the prediction step encodes, for a
  batch that contains such a value, and for the lookup through the bundle.
\<close>

theorem unseen_label_raises:
  assumes "v \<notin> set (classes le)"
  shows "transform1 le v = Inl ValueError \<and>
         (v \<in> set vs \<longrightarrow> transform le vs = Inl ValueError) \<and>
         (getitem (assets_encoders a) col = Inr le \<longrightarrow> encode a col v = Inl ValueError)"
  using assms by (simp add: transform1_eq transform_unseen encode_def bind_exn_def)

theorem unseen_label_raises_witness:
  "getitem (assets_encoders example_assets) Gender = Inr (LabelEncoder_fit [py ''Male'', py ''Female'']) \<and>
   py ''never-seen-label'' \<notin> set (classes (LabelEncoder_fit [py ''Male'', py ''Female''])) \<and>
   transform1 (LabelEncoder_fit [py ''Male'', py ''Female'']) (py ''never-seen-label'') = Inl ValueError \<and>
   transform (LabelEncoder_fit [py ''Male'', py ''Female'']) [py ''Male'', py ''never-seen-label''] = Inl ValueError \<and>
   encode example_assets Gender (py ''never-seen-label'') = Inl ValueError"
proof -
  have h: "py ''never-seen-label'' \<notin> set (classes (LabelEncoder_fit [py ''Male'', py ''Female'']))"
    by (simp add: py_def LabelEncoder_fit_def)
  have g: "getitem (assets_encoders example_assets) Gender = Inr (LabelEncoder_fit [py ''Male'', py ''Female''])"
    by (simp add: example_defs train_def dropna_all_def all_missing_def getitem_encoder_loop
        cat_series_def astype_str_strip_def astype_str_def strip_def isspace_def py_def LabelEncoder_fit_def)
  from unseen_label_raises [OF h, where vs = "[py ''Male'', py ''never-seen-label'']"
      and a = example_assets and col = Gender] g h
  show ?thesis by simp
qed

text \<open>
  C7. For every label of an encoder's label set, decoding the code that \<open>transform\<close>
  gives returns the label.
\<close>

theorem encode_decode_round_trip:
  assumes "l \<in> set (classes le)"
  shows "\<exists>c. transform1 le l = Inr c \<and> inverse_transform1 le c = Inr l"
  using assms by (simp add: transform1_eq inverse_transform1_def position_less nth_position)

theorem encode_decode_round_trip_witness:
  "py ''Male'' \<in> set (classes (LabelEncoder_fit [py ''Male'', py ''Female''])) \<and>
   (\<exists>c. transform1 (LabelEncoder_fit [py ''Male'', py ''Female'']) (py ''Male'') = Inr c \<and>
        inverse_transform1 (LabelEncoder_fit [py ''Male'', py ''Female'']) c = Inr (py ''Male''))"
proof -
  have h: "py ''Male'' \<in> set (classes (LabelEncoder_fit [py ''Male'', py ''Female'']))"
    by (simp add: py_def LabelEncoder_fit_def)
  from encode_decode_round_trip [OF h] h show ?thesis by simp
qed

text \<open>
  C6. The encoder the training loop fits on a column: every cell is turned into a string
  and trimmed, the labels are the distinct normalised values in ascending order, a smaller
  label gets a smaller code, and the codes of the labels are exactly \<open>0, ..., m - 1\<close> for
  \<open>m\<close> distinct normalised values.
\<close>

theorem fit_sorted_dense_codes:
  fixes df :: "survey_row list" and col :: cat_col
  defines "le \<equiv> fst (fit_transform (cat_series df col))"
  shows "classes le = sort (remdups (map (\<lambda>r. strip (astype_str (raw col r))) df)) \<and>
         sorted (classes le) \<and> distinct (classes le) \<and>
         set (classes le) = (\<lambda>r. strip (astype_str (raw col r))) ` set df \<and>
         (\<forall>a b. a \<in> set (classes le) \<and> b \<in> set (classes le) \<and> a < b \<longrightarrow>
            (\<exists>i j. transform1 le a = Inr i \<and> transform1 le b = Inr j \<and> i < j)) \<and>
         {c. \<exists>l \<in> set (classes le). transform1 le l = Inr c} =
            int ` {0..<card ((\<lambda>r. strip (astype_str (raw col r))) ` set df)}"
proof -
  let ?ys = "map (\<lambda>r. strip (astype_str (raw col r))) df"
  have c: "classes le = sort (remdups ?ys)"
    by (simp add: le_def fst_fit_transform classes_fit cat_series_def astype_str_strip_def)
  have s: "sorted (classes le)" and d: "distinct (classes le)" by (simp_all add: c)
  have st: "set (classes le) = (\<lambda>r. strip (astype_str (raw col r))) ` set df"
    by (simp add: c)
  have m: "\<forall>a b. a \<in> set (classes le) \<and> b \<in> set (classes le) \<and> a < b \<longrightarrow>
            (\<exists>i j. transform1 le a = Inr i \<and> transform1 le b = Inr j \<and> i < j)"
    using s by (auto simp: transform1_eq position_mono)
  have "length (classes le) = card (set (classes le))"
    using d by (simp add: distinct_card)
  then have len: "length (classes le) = card ((\<lambda>r. strip (astype_str (raw col r))) ` set df)"
    by (simp only: st)
  have "{c. \<exists>l \<in> set (classes le). transform1 le l = Inr c} =
        {c. \<exists>l \<in> set (classes le). int (position (classes le) l) = c}"
    by (auto simp: transform1_eq)
  also have "\<dots> = int ` {0..<length (classes le)}" using d by (rule codes_of_classes)
  finally have dn: "{c. \<exists>l \<in> set (classes le). transform1 le l = Inr c} =
            int ` {0..<card ((\<lambda>r. strip (astype_str (raw col r))) ` set df)}"
    by (simp only: len)
  from c s d st m dn show ?thesis by blast
qed


theorem fit_sorted_dense_codes_witness:
  "classes (fst (fit_transform (cat_series (dropna_all example_csv) Gender))) =
     [py ''Female'', py ''Male''] \<and>
   py ''Female'' < py ''Male'' \<and>
   (\<exists>i j. transform1 (fst (fit_transform (cat_series (dropna_all example_csv) Gender)))
             (py ''Female'') = Inr i \<and>
          transform1 (fst (fit_transform (cat_series (dropna_all example_csv) Gender)))
             (py ''Male'') = Inr j \<and> i < j)"
proof -
  let ?le = "fst (fit_transform (cat_series (dropna_all example_csv) Gender))"
  note t = fit_sorted_dense_codes [of "dropna_all example_csv" Gender]
  from t have "classes ?le =
      sort (remdups (map (\<lambda>r. strip (astype_str (raw Gender r))) (dropna_all example_csv)))"
    by blast
  then have c: "classes ?le = [py ''Female'', py ''Male'']"
    by (simp add: example_defs dropna_all_def all_missing_def astype_str_def strip_def
        isspace_def py_def)
  have l: "py ''Female'' < py ''Male''" by (simp add: py_def)
  from t have "py ''Female'' \<in> set (classes ?le) \<and> py ''Male'' \<in> set (classes ?le) \<and>
      py ''Female'' < py ''Male'' \<longrightarrow>
      (\<exists>i j. transform1 ?le (py ''Female'') = Inr i \<and> transform1 ?le (py ''Male'') = Inr j \<and> i < j)"
    by blast
  with c l show ?thesis by simp
qed

text \<open>
  C2. Mapping an ordinal label. In the training script each of the three numeric columns
  is \<open>map(d).fillna(default)\<close> of its label column: for every label, the mapped code when
  the label is a key of the field's map, and otherwise, as for a missing cell, the
  field's default (age 1, education 2, employment 1); nothing is raised. In the dashboard
  the three ordinal selections come from select boxes that offer the keys of the bundle's
  maps, so every selection is a key, and indexing the map returns the code the training
  mapping gives that label, again without raising. (The keys of \<open>age_map\<close> never occur
  in a frame read with Latin-1, so in training the age column always takes the default;
  at the dashboard they are the labels offered.)
\<close>

theorem ordinal_mapping:
  "age_numeric r = map_fillna age_map 1 (age_group r) \<and>
   edu_numeric r = map_fillna edu_map 2 (education_level r) \<and>
   emp_numeric r = map_fillna emp_map 1 (employment_status r) \<and>
   map_fillna age_map 1 None = 1 \<and>
   (l \<in> set (keys age_map) \<longrightarrow> (\<exists>v. (l, v) \<in> set age_map \<and> map_fillna age_map 1 (Some l) = v)) \<and>
   (l \<notin> set (keys age_map) \<longrightarrow> map_fillna age_map 1 (Some l) = 1) \<and>
   map_fillna edu_map 2 None = 2 \<and>
   (l \<in> set (keys edu_map) \<longrightarrow> (\<exists>v. (l, v) \<in> set edu_map \<and> map_fillna edu_map 2 (Some l) = v)) \<and>
   (l \<notin> set (keys edu_map) \<longrightarrow> map_fillna edu_map 2 (Some l) = 2) \<and>
   map_fillna emp_map 1 None = 1 \<and>
   (l \<in> set (keys emp_map) \<longrightarrow> (\<exists>v. (l, v) \<in> set emp_map \<and> map_fillna emp_map 1 (Some l) = v)) \<and>
   (l \<notin> set (keys emp_map) \<longrightarrow> map_fillna emp_map 1 (Some l) = 1) \<and>
   (offered (train model_fit csv) s \<longrightarrow>
      age s \<in> set (keys age_map) \<and>
      getitem (assets_age_map (train model_fit csv)) (age s) =
        Inr (map_fillna age_map 1 (Some (age s))) \<and>
      edu s \<in> set (keys edu_map) \<and>
      getitem (assets_edu_map (train model_fit csv)) (edu s) =
        Inr (map_fillna edu_map 2 (Some (edu s))) \<and>
      emp s \<in> set (keys emp_map) \<and>
      getitem (assets_emp_map (train model_fit csv)) (emp s) =
        Inr (map_fillna emp_map 1 (Some (emp s))))"
proof -
  have k: "l \<in> set (keys d) \<longrightarrow> (\<exists>v. (l, v) \<in> set d \<and> map_fillna d dflt (Some l) = v)"
    for d dflt
    using ordinal_known [of l d dflt] by blast
  have u: "l \<notin> set (keys d) \<longrightarrow> map_fillna d dflt (Some l) = dflt" for d dflt
    using ordinal_unknown [of l d dflt] by blast
  have g: "x \<in> set (keys d) \<Longrightarrow> getitem d x = Inr (map_fillna d dflt (Some x))" for x d dflt
    using ordinal_known [of x d dflt] by auto
  have i: "offered (train model_fit csv) s \<longrightarrow>
      age s \<in> set (keys age_map) \<and>
      getitem (assets_age_map (train model_fit csv)) (age s) =
        Inr (map_fillna age_map 1 (Some (age s))) \<and>
      edu s \<in> set (keys edu_map) \<and>
      getitem (assets_edu_map (train model_fit csv)) (edu s) =
        Inr (map_fillna edu_map 2 (Some (edu s))) \<and>
      emp s \<in> set (keys emp_map) \<and>
      getitem (assets_emp_map (train model_fit csv)) (emp s) =
        Inr (map_fillna emp_map 1 (Some (emp s)))"
  proof
    assume "offered (train model_fit csv) s"
    from offered_keys [OF this]
    have "age s \<in> set (keys age_map)" "edu s \<in> set (keys edu_map)" "emp s \<in> set (keys emp_map)"
      by (simp_all add: train_maps)
    then show "age s \<in> set (keys age_map) \<and>
      getitem (assets_age_map (train model_fit csv)) (age s) =
        Inr (map_fillna age_map 1 (Some (age s))) \<and>
      edu s \<in> set (keys edu_map) \<and>
      getitem (assets_edu_map (train model_fit csv)) (edu s) =
        Inr (map_fillna edu_map 2 (Some (edu s))) \<and>
      emp s \<in> set (keys emp_map) \<and>
      getitem (assets_emp_map (train model_fit csv)) (emp s) =
        Inr (map_fillna emp_map 1 (Some (emp s)))"
      by (simp add: train_maps g)
  qed
  show ?thesis
    by (intro conjI)
      (rule age_numeric_def edu_numeric_def emp_numeric_def map_fillna_None k u i)+
qed

theorem ordinal_mapping_witness:
  "edu_numeric (read_row (survey_file ! 0)) = 3 \<and>
   map_fillna edu_map 2 (Some (py ''Postgraduate'')) = 3 \<and>
   map_fillna emp_map 1 (Some (py ''Unemployed'')) = 3 \<and>
   map_fillna age_map 1 (Some (py ''25'' @ [8211] @ py ''34'')) = 2 \<and>
   map_fillna age_map 1 (Some (py ''45+'')) = 1 \<and>
   map_fillna edu_map 2 (Some (py ''Diploma'')) = 2 \<and>
   offered survey_assets survey_selection \<and>
   getitem (assets_age_map survey_assets) (age survey_selection) = Inr 1 \<and>
   getitem (assets_edu_map survey_assets) (edu survey_selection) = Inr 3 \<and>
   getitem (assets_emp_map survey_assets) (emp survey_selection) = Inr 2"
proof -
  note t = ordinal_mapping [where model_fit = example_fit and csv = "read_csv survey_file"
      and s = survey_selection, folded survey_assets_def]
  have e0: "education_level (read_row (survey_file ! 0)) = Some (py ''Postgraduate'')"
    by (simp add: read_row_def survey_file_def)
  have ke: "py ''Postgraduate'' \<in> set (keys edu_map)"
    and km: "py ''Unemployed'' \<in> set (keys emp_map)"
    and ka: "py ''25'' @ [8211] @ py ''34'' \<in> set (keys age_map)"
    and na: "py ''45+'' \<notin> set (keys age_map)"
    and ne: "py ''Diploma'' \<notin> set (keys edu_map)"
    by (simp_all add: keys_def edu_map_def emp_map_def age_map_def py_def)
  from t [of _ "py ''Postgraduate''"] ke
  obtain v where "(py ''Postgraduate'', v) \<in> set edu_map"
    "map_fillna edu_map 2 (Some (py ''Postgraduate'')) = v" by blast
  then have 1: "map_fillna edu_map 2 (Some (py ''Postgraduate'')) = 3"
    by (auto simp: edu_map_def py_def)
  from t [of "read_row (survey_file ! 0)" "[]"] e0 1
  have 0: "edu_numeric (read_row (survey_file ! 0)) = 3" by simp
  from t [of _ "py ''Unemployed''"] km
  obtain w where "(py ''Unemployed'', w) \<in> set emp_map"
    "map_fillna emp_map 1 (Some (py ''Unemployed'')) = w" by blast
  then have 2: "map_fillna emp_map 1 (Some (py ''Unemployed'')) = 3"
    by (auto simp: emp_map_def py_def)
  from t [of _ "py ''25'' @ [8211] @ py ''34''"] ka
  obtain u where "(py ''25'' @ [8211] @ py ''34'', u) \<in> set age_map"
    "map_fillna age_map 1 (Some (py ''25'' @ [8211] @ py ''34'')) = u" by blast
  then have 3: "map_fillna age_map 1 (Some (py ''25'' @ [8211] @ py ''34'')) = 2"
    by (auto simp: age_map_def py_def)
  from t [of _ "py ''45+''"] na
  have 4: "map_fillna age_map 1 (Some (py ''45+'')) = 1" by blast
  from t [of _ "py ''Diploma''"] ne
  have 5: "map_fillna edu_map 2 (Some (py ''Diploma'')) = 2" by blast
  note o = survey_offered
  from t [of _ "[]"] o
  have g: "getitem (assets_age_map survey_assets) (age survey_selection) =
        Inr (map_fillna age_map 1 (Some (age survey_selection)))"
    "getitem (assets_edu_map survey_assets) (edu survey_selection) =
        Inr (map_fillna edu_map 2 (Some (edu survey_selection)))"
    "getitem (assets_emp_map survey_assets) (emp survey_selection) =
        Inr (map_fillna emp_map 1 (Some (emp survey_selection)))" by blast+
  have c: "map_fillna age_map 1 (Some (age survey_selection)) = 1"
    "map_fillna edu_map 2 (Some (edu survey_selection)) = 3"
    "map_fillna emp_map 1 (Some (emp survey_selection)) = 2"
    by (simp_all add: survey_selection_def map_fillna_def fillna_def series_map_def
        age_map_def edu_map_def emp_map_def py_def)
  from 0 1 2 3 4 5 o g c show ?thesis by simp
qed

text \<open>
  C3. The training script has no replacement by \<open>Unknown\<close>: the first theorem shows a
  processed row whose missing categorical cell becomes \<open>nan\<close> and whose blank cell
  becomes the empty string. What holds for every row kept by \<open>dropna\<close> and each of the
  four categorical columns: the value the encoder is fitted on is the cell turned into a
  string and trimmed, trimming it again changes nothing, it neither starts nor ends with
  whitespace, a missing cell gives \<open>nan\<close>, and it is empty exactly when the cell is
  present and consists of whitespace only.
\<close>

theorem training_cleaning_counterexample:
  "row_a \<in> set (dropna_all example_csv) \<and>
   raw Skill_alignment row_a = None \<and>
   cat_series (dropna_all example_csv) Skill_alignment ! 0 = py ''nan'' \<and>
   cat_series (dropna_all example_csv) Skill_alignment ! 0 \<noteq> py ''Unknown'' \<and>
   raw Job_seeking_status row_a = Some (py ''  '') \<and>
   cat_series (dropna_all example_csv) Job_seeking_status ! 0 = []"
  by (simp add: example_defs dropna_all_def all_missing_def cat_series_def astype_str_strip_def
      astype_str_def strip_def isspace_def py_def)

theorem training_cleaning:
  assumes "i < length (dropna_all csv)"
  shows "cat_series (dropna_all csv) col ! i = strip (astype_str (raw col (dropna_all csv ! i))) \<and>
         strip (cat_series (dropna_all csv) col ! i) = cat_series (dropna_all csv) col ! i \<and>
         (cat_series (dropna_all csv) col ! i \<noteq> [] \<longrightarrow>
            \<not> isspace (hd (cat_series (dropna_all csv) col ! i)) \<and>
            \<not> isspace (last (cat_series (dropna_all csv) col ! i))) \<and>
         (raw col (dropna_all csv ! i) = None \<longrightarrow>
            cat_series (dropna_all csv) col ! i = py ''nan'') \<and>
         (cat_series (dropna_all csv) col ! i = [] \<longleftrightarrow>
            (\<exists>s. raw col (dropna_all csv ! i) = Some s \<and> (\<forall>c \<in> set s. isspace c)))"
proof -
  let ?c = "raw col (dropna_all csv ! i)"
  have v: "cat_series (dropna_all csv) col ! i = strip (astype_str ?c)"
    using assms by (simp add: cat_series_nth astype_str_strip_def)
  have e: "strip (astype_str ?c) = [] \<longleftrightarrow> (\<exists>s. ?c = Some s \<and> (\<forall>c \<in> set s. isspace c))"
  proof (cases ?c)
    case None
    have "py ''nan'' \<noteq> []" by (simp add: py_def)
    with strip_nan have "strip (py ''nan'') \<noteq> []" by simp
    with None show ?thesis by (simp add: astype_str_def)
  next
    case (Some s)
    then show ?thesis by (simp add: astype_str_def strip_Nil_iff)
  qed
  have n: "?c = None \<longrightarrow> strip (astype_str ?c) = py ''nan''"
    by (simp add: astype_str_def strip_nan)
  show ?thesis unfolding v using e n strip_ends [of "astype_str ?c"] strip_idem [of "astype_str ?c"]
    by blast
qed

theorem training_cleaning_witness:
  "0 < length (dropna_all example_csv) \<and>
   raw Gender (dropna_all example_csv ! 0) = Some (py '' Male'') \<and>
   cat_series (dropna_all example_csv) Gender ! 0 = py ''Male'' \<and>
   strip (cat_series (dropna_all example_csv) Gender ! 0) = py ''Male'' \<and>
   raw Skill_alignment (dropna_all example_csv ! 0) = None \<and>
   cat_series (dropna_all example_csv) Skill_alignment ! 0 = py ''nan''"
proof -
  have l: "0 < length (dropna_all example_csv)"
    by (simp add: example_defs dropna_all_def all_missing_def)
  have r: "dropna_all example_csv ! 0 = row_a"
    by (simp add: example_defs dropna_all_def all_missing_def)
  have g: "raw Gender row_a = Some (py '' Male'')" by (simp add: row_a_def)
  have s: "raw Skill_alignment row_a = None" by (simp add: row_a_def)
  have m: "strip (astype_str (Some (py '' Male''))) = py ''Male''"
    by (simp add: astype_str_def strip_def isspace_def py_def)
  note t = training_cleaning [OF l, of Gender]
  from t have "cat_series (dropna_all example_csv) Gender ! 0 =
      strip (astype_str (raw Gender (dropna_all example_csv ! 0)))" by blast
  with r g m have a: "cat_series (dropna_all example_csv) Gender ! 0 = py ''Male''" by simp
  from t have "strip (cat_series (dropna_all example_csv) Gender ! 0) =
      cat_series (dropna_all example_csv) Gender ! 0" by blast
  with a have b: "strip (cat_series (dropna_all example_csv) Gender ! 0) = py ''Male''" by simp
  from training_cleaning [OF l, of Skill_alignment]
  have "raw Skill_alignment (dropna_all example_csv ! 0) = None \<longrightarrow>
      cat_series (dropna_all example_csv) Skill_alignment ! 0 = py ''nan''" by blast
  with r s have c: "cat_series (dropna_all example_csv) Skill_alignment ! 0 = py ''nan''" by simp
  from l r g s a b c show ?thesis by simp
qed



text \<open>
  C5. The order of the feature vector. \<open>features\<close> is the fixed list of seven names and the
  bundle records it. For every bundle and every selection the dashboard's row is the
  list of the codes of the selections, column by column in that order, so also in the
  order the bundle records. Every row of \<open>X\<close> holds the training columns in that order.
  When the codes of the ordinal selections are those of a training row and the
  categorical selections are its normalised labels, the dashboard's row is that row of
  \<open>X\<close>.
\<close>

theorem feature_order:
  "features = [Age_numeric, Edu_numeric, Emp_numeric, Cat Gender, Cat Skill_alignment,
      Cat Skill_training, Cat Job_seeking_status] \<and>
   assets_feature_names (train model_fit csv) = features \<and>
   x_in a s = collect (map (feature_code a s) features) \<and>
   x_in (train model_fit csv) s =
     collect (map (feature_code (train model_fit csv) s)
       (assets_feature_names (train model_fit csv))) \<and>
   (i < length (dropna_all csv) \<longrightarrow>
      X (dropna_all csv) ! i =
        map (\<lambda>c. column_values (dropna_all csv) c ! i)
          (assets_feature_names (train model_fit csv))) \<and>
   (i < length (dropna_all csv) \<and>
    getitem age_map (age s) = Inr (age_numeric (dropna_all csv ! i)) \<and>
    getitem edu_map (edu s) = Inr (edu_numeric (dropna_all csv ! i)) \<and>
    getitem emp_map (emp s) = Inr (emp_numeric (dropna_all csv ! i)) \<and>
    gen s = strip (astype_str (gender (dropna_all csv ! i))) \<and>
    skl s = strip (astype_str (skill_alignment (dropna_all csv ! i))) \<and>
    trn s = strip (astype_str (skill_training (dropna_all csv ! i))) \<and>
    sk s = strip (astype_str (job_seeking_status (dropna_all csv ! i))) \<longrightarrow>
      x_in (train model_fit csv) s = Inr (X (dropna_all csv) ! i))"
proof -
  have 5: "x_in (train model_fit csv) s = Inr (X (dropna_all csv) ! i)"
    if "i < length (dropna_all csv)"
      "getitem age_map (age s) = Inr (age_numeric (dropna_all csv ! i))"
      "getitem edu_map (edu s) = Inr (edu_numeric (dropna_all csv ! i))"
      "getitem emp_map (emp s) = Inr (emp_numeric (dropna_all csv ! i))"
      "gen s = strip (astype_str (gender (dropna_all csv ! i)))"
      "skl s = strip (astype_str (skill_alignment (dropna_all csv ! i)))"
      "trn s = strip (astype_str (skill_training (dropna_all csv ! i)))"
      "sk s = strip (astype_str (job_seeking_status (dropna_all csv ! i)))"
  proof (rule x_in_row)
    fix col
    from that(5-8) show "chosen col s = strip (astype_str (raw col (dropna_all csv ! i)))"
      by (cases col) simp_all
  qed (rule that)+
  have 4: "i < length (dropna_all csv) \<longrightarrow>
      X (dropna_all csv) ! i =
        map (\<lambda>c. column_values (dropna_all csv) c ! i)
          (assets_feature_names (train model_fit csv))"
    by (simp add: X_nth train_maps)
  have 3: "x_in (train model_fit csv) s =
     collect (map (feature_code (train model_fit csv) s)
       (assets_feature_names (train model_fit csv)))"
    by (simp only: train_maps x_in_collect)
  from 5 have agree: "i < length (dropna_all csv) \<and>
    getitem age_map (age s) = Inr (age_numeric (dropna_all csv ! i)) \<and>
    getitem edu_map (edu s) = Inr (edu_numeric (dropna_all csv ! i)) \<and>
    getitem emp_map (emp s) = Inr (emp_numeric (dropna_all csv ! i)) \<and>
    gen s = strip (astype_str (gender (dropna_all csv ! i))) \<and>
    skl s = strip (astype_str (skill_alignment (dropna_all csv ! i))) \<and>
    trn s = strip (astype_str (skill_training (dropna_all csv ! i))) \<and>
    sk s = strip (astype_str (job_seeking_status (dropna_all csv ! i))) \<longrightarrow>
      x_in (train model_fit csv) s = Inr (X (dropna_all csv) ! i)" by blast
  show ?thesis
    by (intro conjI) (rule features_def train_maps x_in_collect 3 4 agree)+
qed

theorem feature_order_witness:
  "assets_feature_names survey_assets =
     [Age_numeric, Edu_numeric, Emp_numeric, Cat Gender, Cat Skill_alignment,
      Cat Skill_training, Cat Job_seeking_status] \<and>
   X (dropna_all (read_csv survey_file)) ! 0 = [1, 3, 2, 0, 4, 5, 6] \<and>
   x_in survey_assets survey_selection = Inr [1, 3, 2, 0, 4, 5, 6] \<and>
   collect (map (feature_code survey_assets survey_selection)
     (assets_feature_names survey_assets)) = Inr [1, 3, 2, 0, 4, 5, 6]"
proof -
  let ?df = "dropna_all (read_csv survey_file)"
  note t = feature_order [where model_fit = example_fit and csv = "read_csv survey_file"
      and i = 0 and s = survey_selection and a = survey_assets, folded survey_assets_def]
  have r: "?df ! 0 = read_row (survey_file ! 0)"
    by (simp add: survey_kept) (simp add: read_csv_def survey_file_def)
  have l: "0 < length ?df" by (simp add: survey_kept survey_length)
  have n: "age_numeric (?df ! 0) = 1" unfolding r by (rule age_numeric_read_row)
  have o: "edu_numeric (?df ! 0) = 3" "emp_numeric (?df ! 0) = 2"
    unfolding r
    by (simp_all add: edu_numeric_def emp_numeric_def map_fillna_def fillna_def series_map_def
        edu_map_def emp_map_def read_row_def survey_file_def py_def)
  have g: "getitem age_map (age survey_selection) = Inr (age_numeric (?df ! 0))"
    "getitem edu_map (edu survey_selection) = Inr (edu_numeric (?df ! 0))"
    "getitem emp_map (emp survey_selection) = Inr (emp_numeric (?df ! 0))"
    unfolding n o
    by (simp_all add: getitem_def survey_selection_def age_map_def edu_map_def emp_map_def
        py_def)
  have c: "gen survey_selection = strip (astype_str (gender (?df ! 0)))"
    "skl survey_selection = strip (astype_str (skill_alignment (?df ! 0)))"
    "trn survey_selection = strip (astype_str (skill_training (?df ! 0)))"
    "sk survey_selection = strip (astype_str (job_seeking_status (?df ! 0)))"
    unfolding r
    by (simp_all add: survey_selection_def read_row_def survey_file_def astype_str_def
        strip_def isspace_def py_def)
  have v: "X ?df ! 0 = [1, 3, 2, 0, 4, 5, 6]"
    by (simp only: survey_kept survey_X0)
  note f = t [THEN conjunct1]
  note n = t [THEN conjunct2, THEN conjunct1]
  note k = t [THEN conjunct2, THEN conjunct2, THEN conjunct2, THEN conjunct1]
  note ag = t [THEN conjunct2, THEN conjunct2, THEN conjunct2, THEN conjunct2, THEN conjunct2]
  from l g c have "x_in survey_assets survey_selection = Inr (X ?df ! 0)"
    by (intro ag [rule_format] conjI)
  with v have x: "x_in survey_assets survey_selection = Inr [1, 3, 2, 0, 4, 5, 6]" by simp
  from f n k x v show ?thesis by simp
qed

text \<open>
  C8. When the bundle file is missing, or \<open>pickle.load\<close> raises on it, \<open>load_assets\<close>
  returns \<open>None\<close> and the third tab shows the error message instead of the prediction
  form; nothing is raised.
\<close>

theorem missing_assets_disable_prediction:
  assumes "file = None \<or> (\<exists>blob e. file = Some blob \<and> pickle_load blob = Inl e)"
  shows "load_assets pickle_load file = None \<and>
         tab3 model_predict (load_assets pickle_load file) clicked s =
           St_error ''Model assets not found. Run the training script first.''"
proof -
  from assms have "load_assets pickle_load file = None"
    by (auto simp: load_assets_def)
  then show ?thesis by (simp add: tab3_def)
qed

theorem missing_assets_disable_prediction_witness:
  "load_assets (\<lambda>blob :: nat list. if blob = [] then Inl ValueError else Inr example_assets) None = None \<and>
   tab3 (\<lambda>m x. [3 :: int])
     (load_assets (\<lambda>blob :: nat list. if blob = [] then Inl ValueError else Inr example_assets) None)
     True example_selection = St_error ''Model assets not found. Run the training script first.'' \<and>
   load_assets (\<lambda>blob :: nat list. if blob = [] then Inl ValueError else Inr example_assets) (Some []) = None \<and>
   tab3 (\<lambda>m x. [3 :: int])
     (load_assets (\<lambda>blob :: nat list. if blob = [] then Inl ValueError else Inr example_assets) (Some []))
     True example_selection = St_error ''Model assets not found. Run the training script first.''"
proof -
  let ?pl = "\<lambda>blob :: nat list. if blob = [] then Inl ValueError else Inr example_assets"
  have 1: "(None :: nat list option) = None \<or>
           (\<exists>blob e. (None :: nat list option) = Some blob \<and> ?pl blob = Inl e)" by simp
  have 2: "Some [] = (None :: nat list option) \<or>
           (\<exists>blob e. Some [] = Some blob \<and> ?pl blob = Inl e)" by simp
  from missing_assets_disable_prediction [OF 1, of "\<lambda>m x. [3 :: int]" True example_selection]
    missing_assets_disable_prediction [OF 2, of "\<lambda>m x. [3 :: int]" True example_selection]
  show ?thesis by blast
qed

text \<open>
  C9. A missing cell in a categorical column of a row kept by \<open>dropna\<close> becomes the
  string \<open>nan\<close> before fitting: \<open>nan\<close> is a label of that column's encoder with a code of
  its own, which is the value of the row in the encoded column and decodes to \<open>nan\<close>; the
  row stays in \<open>X\<close>; \<open>nan\<close> is not \<open>Unknown\<close>, and \<open>Unknown\<close> is a label only when some
  cell of the column is literally \<open>Unknown\<close> after trimming.
\<close>

theorem missing_becomes_nan_label:
  assumes "i < length (dropna_all csv)" and "raw col (dropna_all csv ! i) = None"
  shows "\<exists>le c. getitem (assets_encoders (train model_fit csv)) col = Inr le \<and>
           cat_series (dropna_all csv) col ! i = py ''nan'' \<and>
           py ''nan'' \<in> set (classes le) \<and>
           transform1 le (py ''nan'') = Inr c \<and>
           column_values (dropna_all csv) (Cat col) ! i = c \<and>
           inverse_transform1 le c = Inr (py ''nan'') \<and>
           py ''nan'' \<noteq> py ''Unknown'' \<and>
           length (X (dropna_all csv)) = length (dropna_all csv) \<and>
           (py ''Unknown'' \<in> set (classes le) \<longrightarrow>
              (\<exists>s. Some s \<in> raw col ` set (dropna_all csv) \<and> strip s = py ''Unknown''))"
proof -
  let ?df = "dropna_all csv"
  let ?le = "LabelEncoder_fit (cat_series ?df col)"
  let ?c = "column_values ?df (Cat col) ! i"
  have g: "getitem (assets_encoders (train model_fit csv)) col = Inr ?le"
    by (simp add: train_maps getitem_encoder_loop)
  from assms have n: "cat_series ?df col ! i = py ''nan''"
    by (simp add: cat_series_nth astype_str_strip_None)
  from column_values_Cat [OF assms(1), of col] n
  have t: "transform1 ?le (py ''nan'') = Inr ?c" by simp
  then have m: "py ''nan'' \<in> set (classes ?le)"
    by (simp add: transform1_eq split: if_splits)
  from t m have eq: "int (position (classes ?le) (py ''nan'')) = ?c"
    by (simp add: transform1_eq)
  have d: "inverse_transform1 ?le ?c = Inr (py ''nan'')"
    using inverse_position [OF m] by (simp only: eq)
  have x: "length (X ?df) = length ?df" by (simp add: X_def)
  have u: "\<exists>s. Some s \<in> raw col ` set ?df \<and> strip s = py ''Unknown''"
    if "py ''Unknown'' \<in> set (classes ?le)"
  proof -
    from that have "py ''Unknown'' \<in> set (cat_series ?df col)"
      by (simp only: classes_encoder)
    then have "py ''Unknown'' \<in> (\<lambda>r. astype_str_strip (raw col r)) ` set ?df"
      by (simp only: cat_series_def set_map)
    then obtain r where r: "r \<in> set ?df" "py ''Unknown'' = astype_str_strip (raw col r)"
      by (rule imageE)
    show ?thesis
    proof (cases "raw col r")
      case None
      with r(2) have "py ''Unknown'' = py ''nan''" by (simp only: astype_str_strip_None)
      with nan_not_Unknown show ?thesis by simp
    next
      case (Some s)
      with r(2) have 1: "strip s = py ''Unknown''"
        by (simp add: astype_str_strip_def astype_str_def)
      from r(1) have "raw col r \<in> raw col ` set ?df" by (rule imageI)
      with Some have 2: "Some s \<in> raw col ` set ?df" by (simp only:)
      from 2 1 show ?thesis by (intro exI conjI)
    qed
  qed
  from u have u': "py ''Unknown'' \<in> set (classes ?le) \<longrightarrow>
      (\<exists>s. Some s \<in> raw col ` set ?df \<and> strip s = py ''Unknown'')" by (rule impI)
  have H: "getitem (assets_encoders (train model_fit csv)) col = Inr ?le \<and>
           cat_series ?df col ! i = py ''nan'' \<and>
           py ''nan'' \<in> set (classes ?le) \<and>
           transform1 ?le (py ''nan'') = Inr ?c \<and>
           ?c = ?c \<and>
           inverse_transform1 ?le ?c = Inr (py ''nan'') \<and>
           py ''nan'' \<noteq> py ''Unknown'' \<and>
           length (X ?df) = length ?df \<and>
           (py ''Unknown'' \<in> set (classes ?le) \<longrightarrow>
              (\<exists>s. Some s \<in> raw col ` set ?df \<and> strip s = py ''Unknown''))"
    by (intro conjI) (rule g n m t d x u' nan_not_Unknown refl)+
  show ?thesis by (rule exI [of _ ?le], rule exI [of _ ?c], rule H)
qed

theorem missing_becomes_nan_label_witness:
  "0 < length (dropna_all example_csv) \<and>
   raw Skill_alignment (dropna_all example_csv ! 0) = None \<and>
   getitem (assets_encoders example_assets) Skill_alignment =
     Inr \<lparr>classes = [py ''No'', py ''nan'']\<rparr> \<and>
   transform1 \<lparr>classes = [py ''No'', py ''nan'']\<rparr> (py ''nan'') = Inr 1 \<and>
   column_values (dropna_all example_csv) (Cat Skill_alignment) ! 0 = 1"
proof -
  let ?df = "dropna_all example_csv"
  have l: "0 < length ?df" and r: "?df ! 0 = row_a"
    by (simp_all add: example_defs dropna_all_def all_missing_def)
  have h: "raw Skill_alignment (?df ! 0) = None" unfolding r by (simp add: row_a_def)
  have g: "getitem (assets_encoders example_assets) Skill_alignment =
      Inr \<lparr>classes = [py ''No'', py ''nan'']\<rparr>"
    by (simp add: example_defs train_def dropna_all_def all_missing_def getitem_encoder_loop
        cat_series_def astype_str_strip_def astype_str_def strip_def isspace_def py_def
        LabelEncoder_fit_def)
  from missing_becomes_nan_label [OF l h, of "\<lambda>X y. ()", folded example_assets_def]
  obtain le c where
    "getitem (assets_encoders example_assets) Skill_alignment = Inr le"
    "transform1 le (py ''nan'') = Inr c"
    "column_values ?df (Cat Skill_alignment) ! 0 = c" by blast
  with g have "transform1 \<lparr>classes = [py ''No'', py ''nan'']\<rparr> (py ''nan'') = Inr c"
    "column_values ?df (Cat Skill_alignment) ! 0 = c" by simp_all
  moreover have "transform1 \<lparr>classes = [py ''No'', py ''nan'']\<rparr> (py ''nan'') = Inr 1"
    by (simp add: transform1_eq py_def)
  ultimately show ?thesis using l h g by simp
qed

text \<open>
  C10. When every selection is one of the options its select box offers (a key of the
  bundle's ordinal map, a class of the bundle's encoder), the prediction step builds its
  seven-entry input without raising: the third tab ends with neither \<open>KeyError\<close> nor
  \<open>ValueError\<close>.
\<close>

theorem offered_selection_succeeds:
  assumes "offered a s"
  shows "(\<exists>x. x_in a s = Inr x \<and> length x = 7) \<and>
         tab3 model_predict (Some a) True s \<noteq> Uncaught KeyError \<and>
         tab3 model_predict (Some a) True s \<noteq> Uncaught ValueError"
proof -
  from assms obtain v0 v1 v2 where v:
    "getitem (assets_age_map a) (age s) = Inr v0"
    "getitem (assets_edu_map a) (edu s) = Inr v1"
    "getitem (assets_emp_map a) (emp s) = Inr v2"
    unfolding offered_def by (meson key_getitem)
  from assms obtain v3 v4 v5 v6 where c:
    "encode a Gender (gen s) = Inr v3"
    "encode a Skill_alignment (skl s) = Inr v4"
    "encode a Skill_training (trn s) = Inr v5"
    "encode a Job_seeking_status (sk s) = Inr v6"
    unfolding offered_def by (meson one_of_cat_options)
  from v c have x: "x_in a s = Inr [v0, v1, v2, v3, v4, v5, v6]"
    by (simp add: x_in_def bind_exn_def)
  then show ?thesis
    by (simp add: tab3_def bind_exn_def first_def split: list.splits)
qed

theorem offered_selection_succeeds_witness:
  "offered example_assets example_selection \<and>
   (\<exists>x. x_in example_assets example_selection = Inr x \<and> length x = 7) \<and>
   tab3 (\<lambda>m x. [3 :: int]) (Some example_assets) True example_selection \<noteq> Uncaught KeyError"
proof -
  have e: "assets_encoders example_assets =
    [(Gender, \<lparr>classes = [py ''Female'', py ''Male'']\<rparr>),
     (Skill_alignment, \<lparr>classes = [py ''No'', py ''nan'']\<rparr>),
     (Skill_training, \<lparr>classes = [py ''No'', py ''Yes'']\<rparr>),
     (Job_seeking_status, \<lparr>classes = [[], py ''Yes'']\<rparr>)]"
    by (simp add: example_defs train_def dropna_all_def all_missing_def encoder_loop_def
        categorical_cols_def fst_fit_transform
        cat_series_def astype_str_strip_def astype_str_def strip_def isspace_def py_def
        LabelEncoder_fit_def)
  have h: "offered example_assets example_selection"
    unfolding offered_def one_of_def cat_options_def getitem_def bind_exn_def e
    by (simp add: example_assets_def train_maps keys_def age_map_def edu_map_def emp_map_def
        example_selection_def py_def)
  from offered_selection_succeeds [OF h, of "\<lambda>m x. [3 :: int]"] h show ?thesis by blast
qed

end
